theory Spec2Isabelle
  imports Complex_Main
begin

section \<open>JavaScript values and the built-ins the component calls\<close>

text \<open>
  The component \<^verbatim>\<open>FlowCanvas\<close> exists in two variants in the repository:
  \<^verbatim>\<open>src/FlowCanvas.js\<close> and a second copy that adds parameter validation
  (\<^verbatim>\<open>validateRequiredFields\<close>). The handlers they share are modelled once; the
  parameter submit is modelled once per variant.

  Texts are \<open>string\<close>s (code units below 256). A string \<^emph>\<open>value\<close> produced by
  \<^verbatim>\<open>JSON.parse\<close> is a list of code units as natural numbers, since a
  \<^verbatim>\<open>\uXXXX\<close> escape can denote any 16-bit unit. \<open>None\<close> of type
  \<open>json option\<close> is JavaScript's \<^verbatim>\<open>undefined\<close>.
\<close>

datatype json =
    JNull
  | JBool bool
  | JNumber string
  | JString "nat list"
  | JArray "json list"
  | JObject "(nat list \<times> json) list"

type_synonym js_value = "json option"

datatype js_error = SyntaxError string | TypeError

definition js_string :: "string \<Rightarrow> json" where
  "js_string s = JString (map of_char s)"

definition is_ws :: "char \<Rightarrow> bool" where
  "is_ws c = (c = CHR 0x20 \<or> c = CHR 0x09 \<or> c = CHR 0x0A \<or> c = CHR 0x0D)"

definition skip_ws :: "string \<Rightarrow> string" where
  "skip_ws cs = dropWhile is_ws cs"

definition is_digit :: "char \<Rightarrow> bool" where
  "is_digit c = (48 \<le> (of_char c :: nat) \<and> (of_char c :: nat) \<le> 57)"

definition hex_val :: "char \<Rightarrow> nat option" where
  "hex_val c =
     (let n = (of_char c :: nat)
      in if 48 \<le> n \<and> n \<le> 57 then Some (n - 48)
         else if 97 \<le> n \<and> n \<le> 102 then Some (n - 87)
         else if 65 \<le> n \<and> n \<le> 70 then Some (n - 55)
         else None)"

text \<open>The code unit written by the four hexadecimal digits of a \<^verbatim>\<open>\u\<close> escape.\<close>

fun hex4 :: "string \<Rightarrow> nat option" where
  "hex4 [a, b, c, d] =
     (case (hex_val a, hex_val b, hex_val c, hex_val d) of
        (Some h3, Some h2, Some h1, Some h0) \<Rightarrow> Some (((h3 * 16 + h2) * 16 + h1) * 16 + h0)
      | _ \<Rightarrow> None)"
| "hex4 ds = None"

definition unescape :: "char \<Rightarrow> nat option" where
  "unescape e =
     (if e = CHR 0x22 then Some 0x22
      else if e = CHR 0x5C then Some 0x5C
      else if e = CHR ''/'' then Some 0x2F
      else if e = CHR ''b'' then Some 0x08
      else if e = CHR ''f'' then Some 0x0C
      else if e = CHR ''n'' then Some 0x0A
      else if e = CHR ''r'' then Some 0x0D
      else if e = CHR ''t'' then Some 0x09
      else None)"

text \<open>The characters of a JSON string after its opening quote, up to the closing one.\<close>

fun parse_chars :: "nat list \<Rightarrow> string \<Rightarrow> (nat list \<times> string) option" where
  "parse_chars acc [] = None"
| "parse_chars acc (c # cs) =
     (if c = CHR 0x22 then Some (rev acc, cs)
      else if c = CHR 0x5C then
        (case cs of
           [] \<Rightarrow> None
         | e # cs' \<Rightarrow>
             if e = CHR ''u'' then
               (case hex4 (take 4 cs') of
                  None \<Rightarrow> None
                | Some u \<Rightarrow> parse_chars (u # acc) (drop 4 cs'))
             else
               (case unescape e of
                  None \<Rightarrow> None
                | Some u \<Rightarrow> parse_chars (u # acc) cs'))
      else if (of_char c :: nat) < 0x20 then None
      else parse_chars (of_char c # acc) cs)"

text \<open>
  A JSON number: optional minus, an integer part without a leading zero, an optional
  fraction and an optional exponent. The literal is kept as written.
\<close>

definition parse_digits :: "string \<Rightarrow> (string \<times> string) option" where
  "parse_digits cs =
     (if takeWhile is_digit cs = [] then None
      else Some (takeWhile is_digit cs, dropWhile is_digit cs))"

definition parse_int_part :: "string \<Rightarrow> (string \<times> string) option" where
  "parse_int_part cs =
     (case parse_digits cs of
        None \<Rightarrow> None
      | Some (ds, r) \<Rightarrow> if hd ds = CHR ''0'' \<and> 1 < length ds then None else Some (ds, r))"

definition parse_fraction :: "string \<Rightarrow> (string \<times> string) option" where
  "parse_fraction cs =
     (case cs of
        [] \<Rightarrow> Some ([], cs)
      | c # r \<Rightarrow>
          if c = CHR ''.'' then
            (case parse_digits r of None \<Rightarrow> None | Some (ds, r') \<Rightarrow> Some (c # ds, r'))
          else Some ([], cs))"

definition parse_exponent :: "string \<Rightarrow> (string \<times> string) option" where
  "parse_exponent cs =
     (case cs of
        [] \<Rightarrow> Some ([], cs)
      | c # r \<Rightarrow>
          if c = CHR ''e'' \<or> c = CHR ''E'' then
            (case r of
               [] \<Rightarrow> None
             | s # r' \<Rightarrow>
                 if s = CHR ''+'' \<or> s = CHR ''-'' then
                   (case parse_digits r' of
                      None \<Rightarrow> None
                    | Some (ds, r'') \<Rightarrow> Some (c # s # ds, r''))
                 else
                   (case parse_digits r of
                      None \<Rightarrow> None
                    | Some (ds, r'') \<Rightarrow> Some (c # ds, r'')))
          else Some ([], cs))"

definition parse_number :: "string \<Rightarrow> (json \<times> string) option" where
  "parse_number cs =
     (let (sign, r0) = (case cs of
                          [] \<Rightarrow> ([], cs)
                        | c # r \<Rightarrow> if c = CHR ''-'' then ([c], r) else ([], cs))
      in case parse_int_part r0 of
           None \<Rightarrow> None
         | Some (ip, r1) \<Rightarrow>
             (case parse_fraction r1 of
                None \<Rightarrow> None
              | Some (fp, r2) \<Rightarrow>
                  (case parse_exponent r2 of
                     None \<Rightarrow> None
                   | Some (ep, r3) \<Rightarrow> Some (JNumber (sign @ ip @ fp @ ep), r3))))"

definition expect :: "char \<Rightarrow> string \<Rightarrow> string option" where
  "expect c cs =
     (case skip_ws cs of
        [] \<Rightarrow> None
      | d # r \<Rightarrow> if d = c then Some r else None)"

text \<open>
  A value that is not an array or an object: a string, a number or one of the three
  literals. \<open>c\<close> is the first character of the value and \<open>r\<close> what follows it.
\<close>

definition parse_scalar :: "char \<Rightarrow> string \<Rightarrow> (json \<times> string) option" where
  "parse_scalar c r =
     (if c = CHR 0x22 then
        (case parse_chars [] r of
           None \<Rightarrow> None
         | Some (s, r') \<Rightarrow> Some (JString s, r'))
      else if c = CHR ''-'' \<or> is_digit c then parse_number (c # r)
      else if take 4 (c # r) = ''true'' then Some (JBool True, drop 4 (c # r))
      else if take 5 (c # r) = ''false'' then Some (JBool False, drop 5 (c # r))
      else if take 4 (c # r) = ''null'' then Some (JNull, drop 4 (c # r))
      else None)"

text \<open>
  The JSON grammar by recursive descent. The first argument bounds the depth of the
  recursion; \<open>JSON_parse\<close> below starts it at twice the length of the text plus one.
  That is enough for every text (\<open>parse_value_fuel\<close> below): every array or object
  level and every element consumes at least one character between two calls.
\<close>

fun parse_value :: "nat \<Rightarrow> string \<Rightarrow> (json \<times> string) option"
  and parse_elements :: "nat \<Rightarrow> json list \<Rightarrow> string \<Rightarrow> (json \<times> string) option"
  and parse_members :: "nat \<Rightarrow> (nat list \<times> json) list \<Rightarrow> string \<Rightarrow> (json \<times> string) option"
where
  "parse_value 0 cs = None"
| "parse_value (Suc n) cs =
     (case skip_ws cs of
        [] \<Rightarrow> None
      | c # r \<Rightarrow>
          if c = CHR ''{'' then
            (case expect (CHR ''}'') r of
               Some r' \<Rightarrow> Some (JObject [], r')
             | None \<Rightarrow> parse_members n [] r)
          else if c = CHR ''['' then
            (case expect (CHR '']'') r of
               Some r' \<Rightarrow> Some (JArray [], r')
             | None \<Rightarrow> parse_elements n [] r)
          else parse_scalar c r)"
| "parse_elements 0 acc cs = None"
| "parse_elements (Suc n) acc cs =
     (case parse_value n cs of
        None \<Rightarrow> None
      | Some (v, r) \<Rightarrow>
          (case expect (CHR '','') r of
             Some r' \<Rightarrow> parse_elements n (v # acc) r'
           | None \<Rightarrow>
               (case expect (CHR '']'') r of
                  Some r' \<Rightarrow> Some (JArray (rev (v # acc)), r')
                | None \<Rightarrow> None)))"
| "parse_members 0 acc cs = None"
| "parse_members (Suc n) acc cs =
     (case expect (CHR 0x22) cs of
        None \<Rightarrow> None
      | Some r \<Rightarrow>
          (case parse_chars [] r of
             None \<Rightarrow> None
           | Some (k, r1) \<Rightarrow>
               (case expect (CHR '':'') r1 of
                  None \<Rightarrow> None
                | Some r2 \<Rightarrow>
                    (case parse_value n r2 of
                       None \<Rightarrow> None
                     | Some (v, r3) \<Rightarrow>
                         (case expect (CHR '','') r3 of
                            Some r4 \<Rightarrow> parse_members n ((k, v) # acc) r4
                          | None \<Rightarrow>
                              (case expect (CHR ''}'') r3 of
                                 Some r4 \<Rightarrow> Some (JObject (rev ((k, v) # acc)), r4)
                               | None \<Rightarrow> None))))))"

text \<open>
  \<^verbatim>\<open>JSON.parse(text)\<close>: the value, or a thrown \<^verbatim>\<open>SyntaxError\<close>. The text of the
  error's \<^verbatim>\<open>message\<close> is chosen by the JavaScript engine; it is the parameter
  \<open>msg\<close>, a function of the rejected text.
\<close>

definition JSON_parse :: "(string \<Rightarrow> string) \<Rightarrow> string \<Rightarrow> js_error + json" where
  "JSON_parse msg text =
     (case parse_value (2 * length text + 1) text of
        None \<Rightarrow> Inl (SyntaxError (msg text))
      | Some (v, r) \<Rightarrow> if skip_ws r = [] then Inr v else Inl (SyntaxError (msg text)))"

text \<open>
  Property access \<^verbatim>\<open>tool.name\<close> on a parsed value: \<^verbatim>\<open>null\<close> has no properties
  (a \<^verbatim>\<open>TypeError\<close>); an object yields its member \<^verbatim>\<open>name\<close> (the last one
  when the text repeats the key) or \<^verbatim>\<open>undefined\<close>; every other value has no such
  property.
\<close>

fun get_name :: "json \<Rightarrow> js_error + js_value" where
  "get_name JNull = Inl TypeError"
| "get_name (JObject ms) = Inr (map_of (rev ms) (map of_char ''name''))"
| "get_name v = Inr None"

text \<open>
  Whether converting a value to text, as a template literal does with \<^verbatim>\<open>${v}\<close>,
  raises a \<^verbatim>\<open>TypeError\<close>. Primitive values and \<^verbatim>\<open>undefined\<close> always
  convert. An object converts through its \<^verbatim>\<open>toString\<close>: the inherited one gives a
  text, but an own member of that name is a JSON value, which cannot be called, and
  \<^verbatim>\<open>valueOf\<close> (own and not callable, or inherited and returning the object) gives
  no primitive value either, so the conversion fails. An array joins the texts of its
  elements, and fails when one of them does.
\<close>

fun ToString_throws :: "json \<Rightarrow> bool" where
  "ToString_throws (JArray vs) = list_ex ToString_throws vs"
| "ToString_throws (JObject ms) = (map_of ms (map of_char ''toString'') \<noteq> None)"
| "ToString_throws v = False"

definition template_throws :: "js_value \<Rightarrow> bool" where
  "template_throws v = (case v of None \<Rightarrow> False | Some j \<Rightarrow> ToString_throws j)"

text \<open>Truthiness of an optional text, and \<^verbatim>\<open>v || d\<close>.\<close>

definition truthy :: "string option \<Rightarrow> bool" where
  "truthy v = (case v of None \<Rightarrow> False | Some t \<Rightarrow> t \<noteq> [])"

definition or_default :: "string option \<Rightarrow> string \<Rightarrow> string" where
  "or_default v d = (case v of None \<Rightarrow> d | Some t \<Rightarrow> if t = [] then d else t)"

text \<open>
  \<^verbatim>\<open>`${n}`\<close> for a non-negative integer \<open>n\<close> (the value of \<^verbatim>\<open>Date.now()\<close>): its
  decimal digits. \<^verbatim>\<open>s.substr(start, len)\<close> for non-negative arguments.
\<close>

definition digit_char :: "nat \<Rightarrow> char" where
  "digit_char d = char_of (48 + d)"

fun Number_toString :: "nat \<Rightarrow> string" where
  "Number_toString n =
     (if n < 10 then [digit_char n]
      else Number_toString (n div 10) @ [digit_char (n mod 10)])"

declare Number_toString.simps [simp del]

definition substr :: "nat \<Rightarrow> nat \<Rightarrow> string \<Rightarrow> string" where
  "substr start len t = take len (drop start t)"

section \<open>The graph held by the component\<close>

record xy =
  pos_x :: real
  pos_y :: real

record node_data =
  label :: js_value
  parameters :: "string \<rightharpoonup> string"

text \<open>
  A node's \<^verbatim>\<open>style\<close> object. Reading a property that is absent and reading one
  that holds \<^verbatim>\<open>undefined\<close> give the same result, and \<^verbatim>\<open>JSON.stringify\<close> leaves
  both out, so \<open>backgroundColor = None\<close> stands for both.
\<close>

record css =
  backgroundColor :: "string option"
  otherProps :: "(string \<times> string) list"

record node =
  node_id :: string
  node_type :: string
  data :: node_data
  position :: xy
  style :: "css option"

record connection =
  source :: string
  target :: string
  sourceHandle :: "string option"
  targetHandle :: "string option"

record edge = connection +
  edge_id :: string

text \<open>The component's state: one field per \<^verbatim>\<open>useState\<close> / \<^verbatim>\<open>useNodesState\<close> hook.\<close>

record state =
  nodes :: "node list"
  edges :: "edge list"
  input :: string
  result :: js_value
  showModal :: bool
  selectedNode :: "node option"
  nodeParams :: "string \<rightharpoonup> string"

section \<open>Status events\<close>

text \<open>\<^verbatim>\<open>{ ...node.style, backgroundColor: c }\<close>; spreading \<^verbatim>\<open>undefined\<close> adds nothing.\<close>

definition with_backgroundColor :: "node \<Rightarrow> string option \<Rightarrow> css" where
  "with_backgroundColor n c =
     (case style n of
        None \<Rightarrow> \<lparr>backgroundColor = c, otherProps = []\<rparr>
      | Some st \<Rightarrow> st\<lparr>backgroundColor := c\<rparr>)"

text \<open>\<^verbatim>\<open>n.style?.backgroundColor\<close>, as the component reads a node's marker back.\<close>

definition statusColor :: "node \<Rightarrow> string option" where
  "statusColor n = (case style n of None \<Rightarrow> None | Some st \<Rightarrow> backgroundColor st)"

definition status_color :: "js_value \<Rightarrow> string" where
  "status_color status =
     (if status = Some (js_string ''processing'') then ''yellow''
      else if status = Some (js_string ''completed'') then ''lightgreen''
      else ''red'')"

text \<open>
  The update that the handler of \<^verbatim>\<open>node_processing\<close> events passes to
  \<^verbatim>\<open>setNodes\<close>.
\<close>

definition mark_nodes :: "js_value \<Rightarrow> js_value \<Rightarrow> node list \<Rightarrow> node list" where
  "mark_nodes nodeId status nds =
     map (\<lambda>n. if Some (js_string (node_id n)) = nodeId
               then n\<lparr>style := Some (with_backgroundColor n (Some (status_color status)))\<rparr>
               else n)
         nds"

text \<open>
  The handler of \<^verbatim>\<open>node_processing\<close> events, payload \<^verbatim>\<open>{ nodeId, status }\<close>.
  Its first statement logs \<^verbatim>\<open>`Node ${nodeId} status: ${status}`\<close>: the template
  literal converts \<open>nodeId\<close>, then \<open>status\<close>, to text, and a failing conversion ends
  the handler before the nodes are updated. The logged text goes to the console only.
  (The validating copy logs the same two values once more for a node that matches; that
  conversion has then already succeeded.)
\<close>

definition node_processing :: "js_value \<Rightarrow> js_value \<Rightarrow> state \<Rightarrow> js_error + state" where
  "node_processing nodeId status s =
     (if template_throws nodeId then Inl TypeError
      else if template_throws status then Inl TypeError
      else Inr (s\<lparr>nodes := mark_nodes nodeId status (nodes s)\<rparr>))"

text \<open>The handler of \<^verbatim>\<open>execution_complete\<close> events, payload \<^verbatim>\<open>{ result }\<close>.\<close>

definition execution_complete :: "js_value \<Rightarrow> state \<Rightarrow> state" where
  "execution_complete r s =
     s\<lparr>result := r,
       nodes := map (\<lambda>n. n\<lparr>style := Some (with_backgroundColor n None)\<rparr>) (nodes s)\<rparr>"

section \<open>Drag and drop\<close>

record drop_event =
  dataTransfer :: "string \<rightharpoonup> string"
  clientX :: real
  clientY :: real

text \<open>\<^verbatim>\<open>event.dataTransfer.getData(format)\<close>: the empty text when nothing is stored.\<close>

definition getData :: "drop_event \<Rightarrow> string \<Rightarrow> string" where
  "getData ev format = (case dataTransfer ev format of None \<Rightarrow> [] | Some d \<Rightarrow> d)"

text \<open>
  \<^verbatim>\<open>`${Date.now()}-${Math.random().toString(36).substr(2, 9)}`\<close>. The clock's value
  \<open>now\<close> and the text \<open>rnd\<close> of \<^verbatim>\<open>Math.random().toString(36)\<close> are inputs.
\<close>

definition uniqueId :: "nat \<Rightarrow> string \<Rightarrow> string" where
  "uniqueId now rnd = Number_toString now @ ''-'' @ substr 2 9 rnd"

text \<open>
  \<^verbatim>\<open>onDrop\<close>. \<open>screenToFlowPosition\<close> is the canvas's coordinate transform, supplied
  by the rendering library.
\<close>

definition onDrop ::
  "(string \<Rightarrow> string) \<Rightarrow> (xy \<Rightarrow> xy) \<Rightarrow> nat \<Rightarrow> string \<Rightarrow> drop_event \<Rightarrow> state \<Rightarrow> js_error + state" where
  "onDrop msg screenToFlowPosition now rnd ev s =
     (let toolData = getData ev ''application/reactflow''
      in if toolData = [] then Inr s
         else
           (case JSON_parse msg toolData of
              Inl e \<Rightarrow> Inl e
            | Inr tool \<Rightarrow>
                (case get_name tool of
                   Inl e \<Rightarrow> Inl e
                 | Inr nm \<Rightarrow>
                     Inr (s\<lparr>nodes := nodes s @
                            [\<lparr>node_id = uniqueId now rnd,
                              node_type = ''default'',
                              data = \<lparr>label = nm, parameters = Map.empty\<rparr>,
                              position = screenToFlowPosition \<lparr>pos_x = clientX ev, pos_y = clientY ev\<rparr>,
                              style = None\<rparr>]\<rparr>))))"

section \<open>Connecting nodes\<close>

text \<open>
  \<^verbatim>\<open>addEdge\<close> is the utility of the rendering library \<^verbatim>\<open>@xyflow/react\<close> that
  \<^verbatim>\<open>onConnect\<close> calls; the library is not part of the repository's sources. It is
  modelled after the library's implementation: a connection without source or target
  is ignored, the new edge's id is derived from the connection, and a connection that
  an edge of the list already makes is not added again.
\<close>

definition getEdgeId :: "connection \<Rightarrow> string" where
  "getEdgeId c =
     ''xy-edge__'' @ source c @ or_default (sourceHandle c) [] @ ''-'' @
     target c @ or_default (targetHandle c) []"

definition same_handle :: "string option \<Rightarrow> string option \<Rightarrow> bool" where
  "same_handle a b = (a = b \<or> (\<not> truthy a \<and> \<not> truthy b))"

definition connectionExists :: "edge \<Rightarrow> edge list \<Rightarrow> bool" where
  "connectionExists e es =
     list_ex (\<lambda>el. source el = source e \<and> target el = target e \<and>
                   same_handle (sourceHandle el) (sourceHandle e) \<and>
                   same_handle (targetHandle el) (targetHandle e)) es"

definition new_edge :: "connection \<Rightarrow> edge" where
  "new_edge c =
     \<lparr>source = source c, target = target c,
      sourceHandle = sourceHandle c, targetHandle = targetHandle c,
      edge_id = getEdgeId c\<rparr>"

definition addEdge :: "connection \<Rightarrow> edge list \<Rightarrow> edge list" where
  "addEdge edgeParams es =
     (if source edgeParams = [] \<or> target edgeParams = [] then es
      else if connectionExists (new_edge edgeParams) es then es
      else es @ [new_edge edgeParams])"

definition onConnect :: "connection \<Rightarrow> state \<Rightarrow> state" where
  "onConnect params s = s\<lparr>edges := addEdge params (edges s)\<rparr>"

section \<open>The parameter editor\<close>

definition onNodeClick :: "node \<Rightarrow> state \<Rightarrow> state" where
  "onNodeClick n s =
     s\<lparr>selectedNode := Some n, nodeParams := parameters (data n), showModal := True\<rparr>"

definition handleParamChange :: "string \<Rightarrow> string \<Rightarrow> state \<Rightarrow> state" where
  "handleParamChange paramName v s = s\<lparr>nodeParams := (nodeParams s)(paramName \<mapsto> v)\<rparr>"

text \<open>The modal's Cancel button: \<^verbatim>\<open>setShowModal(false)\<close>.\<close>

definition cancel :: "state \<Rightarrow> state" where
  "cancel s = s\<lparr>showModal := False\<rparr>"

text \<open>The three state updates that every accepted submit makes.\<close>

definition commit_params :: "node \<Rightarrow> state \<Rightarrow> state" where
  "commit_params sel s =
     s\<lparr>nodes :=
         map (\<lambda>n. if node_id n = node_id sel
                   then n\<lparr>data := (data n)\<lparr>parameters := nodeParams s\<rparr>\<rparr>
                   else n)
             (nodes s),
       showModal := False,
       selectedNode := None,
       nodeParams := Map.empty\<rparr>"

text \<open>
  \<^verbatim>\<open>handleParamSubmit\<close> of \<^verbatim>\<open>src/FlowCanvas.js\<close>: no validation. With no node
  selected, \<^verbatim>\<open>selectedNode.id\<close> is a \<^verbatim>\<open>TypeError\<close> as soon as the update visits
  a node.
\<close>

definition handleParamSubmit :: "state \<Rightarrow> js_error + state" where
  "handleParamSubmit s =
     (case selectedNode s of
        None \<Rightarrow>
          if nodes s = []
          then Inr (s\<lparr>showModal := False, selectedNode := None, nodeParams := Map.empty\<rparr>)
          else Inl TypeError
      | Some sel \<Rightarrow> Inr (commit_params sel s))"

text \<open>
  \<^verbatim>\<open>validateRequiredFields\<close> of the validating variant: the texts passed to
  \<^verbatim>\<open>alert\<close>, and the returned boolean.
\<close>

fun message :: "js_error \<Rightarrow> string" where
  "message (SyntaxError m) = m"
| "message TypeError = []"

definition validateRequiredFields ::
  "(string \<Rightarrow> string) \<Rightarrow> (string \<rightharpoonup> string) \<Rightarrow> js_value \<Rightarrow> string list \<times> bool" where
  "validateRequiredFields msg params toolName =
     (if toolName = Some (js_string ''llm_tool'') \<and> \<not> truthy (params ''apiKey'')
      then ([''API Key is required for llm_tool''], False)
      else if toolName = Some (js_string ''fetch_from_rest_api_tool'') then
        (let headers = or_default (params ''headers'') ''{}'';
             body = or_default (params ''body'') ''{}''
         in case JSON_parse msg headers of
              Inl e \<Rightarrow> ([''Invalid JSON in headers: '' @ message e], False)
            | Inr _ \<Rightarrow>
                (case JSON_parse msg body of
                   Inl e \<Rightarrow> ([''Invalid JSON in body: '' @ message e], False)
                 | Inr _ \<Rightarrow> ([], True)))
      else ([], True))"

text \<open>
  \<^verbatim>\<open>handleParamSubmit\<close> of the validating variant: the alerts shown, and the state
  after the handler.
\<close>

definition handleParamSubmit_validating ::
  "(string \<Rightarrow> string) \<Rightarrow> state \<Rightarrow> js_error + (string list \<times> state)" where
  "handleParamSubmit_validating msg s =
     (case selectedNode s of
        None \<Rightarrow> Inl TypeError
      | Some sel \<Rightarrow>
          (case validateRequiredFields msg (nodeParams s) (label (data sel)) of
             (alerts, ok) \<Rightarrow>
               if ok then Inr (alerts, commit_params sel s) else Inr (alerts, s)))"

section \<open>Saving and executing\<close>

record document =
  doc_id :: string
  doc_nodes :: "node list"
  doc_edges :: "edge list"

text \<open>
  \<^verbatim>\<open>saveWorkflow\<close> of \<^verbatim>\<open>src/FlowCanvas.js\<close>: the request body handed to
  \<^verbatim>\<open>axios.post\<close> and the text alerted. \<open>post\<close> is the endpoint: the
  acknowledgement's message, or \<open>None\<close> when the request fails. The state is not
  written.
\<close>

definition saveWorkflow :: "(document \<Rightarrow> string option) \<Rightarrow> state \<Rightarrow> document \<times> string" where
  "saveWorkflow post s =
     (let body = \<lparr>doc_id = ''workflow1'', doc_nodes = nodes s, doc_edges = edges s\<rparr>
      in case post body of
           Some m \<Rightarrow> (body, m)
         | None \<Rightarrow> (body, ''Failed to save workflow''))"

text \<open>
  \<^verbatim>\<open>executeWorkflow\<close> of \<^verbatim>\<open>src/FlowCanvas.js\<close>: the state after the handler;
  \<open>ok\<close> tells whether the request went through.
\<close>

definition executeWorkflow :: "bool \<Rightarrow> state \<Rightarrow> state" where
  "executeWorkflow ok s =
     (let s1 = s\<lparr>result := Some (js_string []),
                 nodes := map (\<lambda>n. n\<lparr>style := Some (with_backgroundColor n None)\<rparr>) (nodes s)\<rparr>
      in if ok then s1 else s1\<lparr>result := Some (js_string ''Error executing workflow'')\<rparr>)"

section \<open>Example inputs\<close>

text \<open>
  Concrete states and events on which the theorems below are evaluated.
  \<open>engine_message\<close> is one possible choice of the engine's error text,
  \<open>flow_position\<close> a canvas that is neither panned nor zoomed, \<open>ack\<close> an endpoint
  that acknowledges every request.
\<close>

definition engine_message :: "string \<Rightarrow> string" where
  "engine_message t = ''Unexpected token''"

definition flow_position :: "xy \<Rightarrow> xy" where
  "flow_position p = p"

definition ack :: "document \<Rightarrow> string option" where
  "ack d = Some ''Workflow saved''"

definition initial_state :: state where
  "initial_state =
     \<lparr>nodes = [], edges = [], input = [], result = Some (js_string []),
      showModal = False, selectedNode = None, nodeParams = Map.empty\<rparr>"

definition llm_node :: node where
  "llm_node =
     \<lparr>node_id = ''n2'', node_type = ''default'',
      data = \<lparr>label = Some (js_string ''llm_tool''),
              parameters = [''model'' \<mapsto> ''small'', ''apiKey'' \<mapsto> ''sk-1'']\<rparr>,
      position = \<lparr>pos_x = 0, pos_y = 0\<rparr>, style = None\<rparr>"

definition fetch_node :: node where
  "fetch_node =
     \<lparr>node_id = ''n3'', node_type = ''default'',
      data = \<lparr>label = Some (js_string ''fetch_from_rest_api_tool''), parameters = Map.empty\<rparr>,
      position = \<lparr>pos_x = 0, pos_y = 0\<rparr>, style = None\<rparr>"

definition search_node :: "string \<Rightarrow> node" where
  "search_node i =
     \<lparr>node_id = i, node_type = ''default'',
      data = \<lparr>label = Some (js_string ''search_tool''), parameters = Map.empty\<rparr>,
      position = \<lparr>pos_x = 100, pos_y = 100\<rparr>, style = None\<rparr>"

definition unnamed_node :: "string \<Rightarrow> node" where
  "unnamed_node i =
     \<lparr>node_id = i, node_type = ''default'',
      data = \<lparr>label = None, parameters = Map.empty\<rparr>,
      position = \<lparr>pos_x = 100, pos_y = 100\<rparr>, style = None\<rparr>"

definition graph_state :: state where
  "graph_state =
     \<lparr>nodes = [llm_node, fetch_node],
      edges = [], input = [], result = Some (js_string []),
      showModal = False, selectedNode = None, nodeParams = Map.empty\<rparr>"

text \<open>The editor opened on a node, and one field typed over.\<close>

definition editing_llm :: state where
  "editing_llm = handleParamChange ''apiKey'' [] (onNodeClick llm_node graph_state)"

definition editing_fetch :: state where
  "editing_fetch = handleParamChange ''headers'' ''{not json'' (onNodeClick fetch_node graph_state)"

definition editing_fetch_number :: state where
  "editing_fetch_number = handleParamChange ''headers'' ''42'' (onNodeClick fetch_node graph_state)"

text \<open>
  An event value that cannot be converted to text, \<^verbatim>\<open>{"toString": null}\<close>, and a
  graph whose first node carries a marker and another style property.
\<close>

definition unprintable :: js_value where
  "unprintable = Some (JObject [(map of_char ''toString'', JNull)])"

definition styled_state :: state where
  "styled_state =
     graph_state\<lparr>nodes :=
       [llm_node\<lparr>style := Some \<lparr>backgroundColor = Some ''yellow'',
                                   otherProps = [(''border'', ''2px solid'')]\<rparr>\<rparr>,
        fetch_node]\<rparr>"

text \<open>An editor state whose draft lacks a key that the node has stored.\<close>

definition editing_new_draft :: state where
  "editing_new_draft =
     graph_state\<lparr>showModal := True, selectedNode := Some llm_node,
                 nodeParams := [''apiKey'' \<mapsto> ''sk-2'']\<rparr>"

text \<open>
  Drag payloads: a tool as \<^verbatim>\<open>onDragStart\<close> serialises it, a text under the same
  transfer key that is not JSON, an object that is not a tool, and a drag that does not
  use the transfer key at all.
\<close>

definition tool_payload :: string where
  \<open>tool_payload = ''{"name":"search_tool","description":"Search the web","parameters":[]}''\<close>

definition tool_drag :: drop_event where
  "tool_drag = \<lparr>dataTransfer = [''application/reactflow'' \<mapsto> tool_payload],
                clientX = 100, clientY = 100\<rparr>"

definition foreign_drag :: drop_event where
  "foreign_drag = \<lparr>dataTransfer = [''application/reactflow'' \<mapsto> ''input''],
                   clientX = 100, clientY = 100\<rparr>"

definition object_drag :: drop_event where
  "object_drag = \<lparr>dataTransfer = [''application/reactflow'' \<mapsto> ''{}''],
                  clientX = 100, clientY = 100\<rparr>"

definition text_drag :: drop_event where
  "text_drag = \<lparr>dataTransfer = [''text/plain'' \<mapsto> ''hello''], clientX = 100, clientY = 100\<rparr>"

definition link :: connection where
  "link = \<lparr>source = ''n2'', target = ''n3'', sourceHandle = None, targetHandle = None\<rparr>"

definition self_loop :: connection where
  "self_loop = \<lparr>source = ''n2'', target = ''n2'', sourceHandle = None, targetHandle = None\<rparr>"

text \<open>
  Whether \<^verbatim>\<open>JSON.parse(params[field] || '{}')\<close> returns, as
  \<^verbatim>\<open>validateRequiredFields\<close> tries it for a field.
\<close>

definition parses_field :: "(string \<Rightarrow> string) \<Rightarrow> string option \<Rightarrow> bool" where
  "parses_field msg v =
     (case JSON_parse msg (or_default v ''{}'') of Inl e \<Rightarrow> False | Inr j \<Rightarrow> True)"

section \<open>Facts about the built-ins\<close>

lemma js_string_eq [simp]: "js_string a = js_string b \<longleftrightarrow> a = b"
  by (simp add: js_string_def inj_map_eq_map [OF inj_of_char])

lemma JSON_parse_empty_object: "JSON_parse msg ''{}'' = Inr (JObject [])"
  by code_simp

lemma JSON_parse_not_json: "JSON_parse msg ''{not json'' = Inl (SyntaxError (msg ''{not json''))"
  by code_simp

lemma JSON_parse_input: "JSON_parse msg ''input'' = Inl (SyntaxError (msg ''input''))"
  by code_simp

lemma JSON_parse_number: "JSON_parse msg ''42'' = Inr (JNumber ''42'')"
  by code_simp

lemma template_throws_string [simp]: "\<not> template_throws (Some (js_string t))"
  by (simp add: template_throws_def js_string_def)

lemma template_throws_unprintable: "template_throws unprintable"
  by (simp add: template_throws_def unprintable_def)

lemma JSON_parse_tool_payload:
  "JSON_parse msg tool_payload =
     Inr (JObject [(map of_char ''name'', js_string ''search_tool''),
                   (map of_char ''description'', js_string ''Search the web''),
                   (map of_char ''parameters'', JArray [])])"
  unfolding tool_payload_def by code_simp

lemma tool_payload_nonempty: "tool_payload \<noteq> []"
  by (simp add: tool_payload_def)

lemma parses_field_empty: "\<not> truthy v \<Longrightarrow> parses_field msg v"
  by (auto simp: parses_field_def truthy_def or_default_def JSON_parse_empty_object
      split: option.splits)

subsection \<open>The depth bound of the JSON descent\<close>

text \<open>
  Every parser consumes at least one character of what it accepts; a larger bound never
  changes an accepted result; and a result accepted at any bound is accepted at twice
  the number of characters it consumed.
\<close>

lemma length_skip_ws: "length (skip_ws cs) \<le> length cs"
  by (simp add: skip_ws_def length_dropWhile_le)

lemma skip_ws_Cons_shorter: "skip_ws cs = c # r \<Longrightarrow> length r < length cs"
  using length_skip_ws [of cs] by simp

lemma expect_shorter: "expect c cs = Some r \<Longrightarrow> length r < length cs"
  by (auto simp: expect_def split: list.splits if_splits dest: skip_ws_Cons_shorter)

lemma parse_chars_shorter: "parse_chars acc cs = Some (t, r) \<Longrightarrow> length r < length cs"
proof (induction acc cs rule: parse_chars.induct)
  case (1 acc)
  then show ?case by simp
next
  case (2 acc c cs)
  show ?case
  proof (cases "c = CHR 0x22")
    case True
    with "2.prems" show ?thesis by simp
  next
    case quote: False
    show ?thesis
    proof (cases "c = CHR 0x5C")
      case False
      with quote "2.prems" have "parse_chars (of_char c # acc) cs = Some (t, r)"
        by (simp split: if_splits)
      with quote False "2.prems" have "length r < length cs"
        by (intro "2.IH"(3)) (auto split: if_splits)
      then show ?thesis by simp
    next
      case True
      with quote "2.prems" obtain e cs' where cs: "cs = e # cs'"
        by (cases cs) auto
      show ?thesis
      proof (cases "e = CHR ''u''")
        case u: True
        with quote True cs "2.prems" obtain cu where
          h: "hex4 (take 4 cs') = Some cu" and
          p: "parse_chars (cu # acc) (drop 4 cs') = Some (t, r)"
          by (auto split: option.splits)
        from "2.IH"(1) [OF quote True cs u h p] have "length r < length (drop 4 cs')" .
        with cs show ?thesis by simp
      next
        case nu: False
        with quote True cs "2.prems" obtain cu where
          h: "unescape e = Some cu" and
          p: "parse_chars (cu # acc) cs' = Some (t, r)"
          by (auto split: option.splits)
        from "2.IH"(2) [OF quote True cs nu h p] have "length r < length cs'" .
        with cs show ?thesis by simp
      qed
    qed
  qed
qed

lemma parse_digits_shorter: "parse_digits cs = Some (ds, r) \<Longrightarrow> length r < length cs"
proof -
  assume a: "parse_digits cs = Some (ds, r)"
  have "length (takeWhile is_digit cs) + length (dropWhile is_digit cs) = length cs"
    by (metis length_append takeWhile_dropWhile_id)
  moreover from a have "takeWhile is_digit cs \<noteq> []" and "r = dropWhile is_digit cs"
    by (auto simp: parse_digits_def split: if_splits)
  ultimately show ?thesis
    by (cases "takeWhile is_digit cs") auto
qed

lemma parse_int_part_shorter: "parse_int_part cs = Some (ds, r) \<Longrightarrow> length r < length cs"
  by (auto simp: parse_int_part_def split: option.splits if_splits dest: parse_digits_shorter)

lemma parse_fraction_shorter: "parse_fraction cs = Some (ds, r) \<Longrightarrow> length r \<le> length cs"
  by (auto simp: parse_fraction_def split: list.splits option.splits if_splits
      dest!: parse_digits_shorter)

lemma parse_exponent_shorter: "parse_exponent cs = Some (ds, r) \<Longrightarrow> length r \<le> length cs"
  by (auto simp: parse_exponent_def split: list.splits option.splits if_splits
      dest!: parse_digits_shorter)

lemma parse_number_shorter: "parse_number cs = Some (v, r) \<Longrightarrow> length r < length cs"
  by (auto simp: parse_number_def Let_def split: list.splits option.splits if_splits prod.splits
      dest!: parse_int_part_shorter parse_fraction_shorter parse_exponent_shorter)

lemma parse_scalar_shorter: "parse_scalar c r = Some (v, r') \<Longrightarrow> length r' \<le> length r"
  by (auto simp: parse_scalar_def split: option.splits if_splits
      dest!: parse_chars_shorter parse_number_shorter)

lemma parse_mono:
  "(\<forall>cs res m. parse_value n cs = Some res \<longrightarrow> n \<le> m \<longrightarrow> parse_value m cs = Some res) \<and>
   (\<forall>acc cs res m. parse_elements n acc cs = Some res \<longrightarrow> n \<le> m \<longrightarrow>
        parse_elements m acc cs = Some res) \<and>
   (\<forall>acc cs res m. parse_members n acc cs = Some res \<longrightarrow> n \<le> m \<longrightarrow>
        parse_members m acc cs = Some res)"
proof (induction n)
  case 0
  show ?case by simp
next
  case (Suc k)
  from Suc.IH have
    V: "\<And>cs res m. parse_value k cs = Some res \<Longrightarrow> k \<le> m \<Longrightarrow> parse_value m cs = Some res" and
    E: "\<And>acc cs res m. parse_elements k acc cs = Some res \<Longrightarrow> k \<le> m \<Longrightarrow>
          parse_elements m acc cs = Some res" and
    M: "\<And>acc cs res m. parse_members k acc cs = Some res \<Longrightarrow> k \<le> m \<Longrightarrow>
          parse_members m acc cs = Some res"
    by blast+
  have v: "parse_value m cs = Some res"
    if a: "parse_value (Suc k) cs = Some res" and le: "Suc k \<le> m" for cs res m
  proof -
    from le obtain j where m: "m = Suc j" and kj: "k \<le> j" by (cases m) auto
    from a show ?thesis
      unfolding m
      by (auto split: list.splits if_splits option.splits dest: E [OF _ kj] M [OF _ kj])
  qed
  have e: "parse_elements m acc cs = Some res"
    if a: "parse_elements (Suc k) acc cs = Some res" and le: "Suc k \<le> m" for acc cs res m
  proof -
    from le obtain j where m: "m = Suc j" and kj: "k \<le> j" by (cases m) auto
    from a obtain v r where pv: "parse_value k cs = Some (v, r)"
      by (auto split: option.splits)
    then have pv': "parse_value j cs = Some (v, r)" using kj by (rule V)
    from a pv show ?thesis
      unfolding m
      by (auto simp: pv' split: option.splits dest: E [OF _ kj])
  qed
  have mm: "parse_members m acc cs = Some res"
    if a: "parse_members (Suc k) acc cs = Some res" and le: "Suc k \<le> m" for acc cs res m
  proof -
    from le obtain j where m: "m = Suc j" and kj: "k \<le> j" by (cases m) auto
    from a obtain r ky r1 r2 v r3 where
      x: "expect (CHR 0x22) cs = Some r" "parse_chars [] r = Some (ky, r1)"
         "expect (CHR '':'') r1 = Some r2" "parse_value k r2 = Some (v, r3)"
      by (auto split: option.splits)
    from x(4) have pv': "parse_value j r2 = Some (v, r3)" using kj by (rule V)
    from a x show ?thesis
      unfolding m
      by (auto simp: pv' split: option.splits dest: M [OF _ kj])
  qed
  from v e mm show ?case by blast
qed

lemma parse_value_mono: "parse_value n cs = Some res \<Longrightarrow> n \<le> m \<Longrightarrow> parse_value m cs = Some res"
  using parse_mono by blast

lemma parse_elements_mono:
  "parse_elements n acc cs = Some res \<Longrightarrow> n \<le> m \<Longrightarrow> parse_elements m acc cs = Some res"
  using parse_mono by blast

lemma parse_members_mono:
  "parse_members n acc cs = Some res \<Longrightarrow> n \<le> m \<Longrightarrow> parse_members m acc cs = Some res"
  using parse_mono by blast

lemma parse_bound:
  "(\<forall>cs v r. parse_value n cs = Some (v, r) \<longrightarrow>
        length r < length cs \<and> parse_value (2 * (length cs - length r)) cs = Some (v, r)) \<and>
   (\<forall>acc cs v r. parse_elements n acc cs = Some (v, r) \<longrightarrow>
        length r < length cs \<and>
        parse_elements (2 * (length cs - length r)) acc cs = Some (v, r)) \<and>
   (\<forall>acc cs v r. parse_members n acc cs = Some (v, r) \<longrightarrow>
        length r < length cs \<and>
        parse_members (2 * (length cs - length r)) acc cs = Some (v, r))"
proof (induction n)
  case 0
  show ?case by simp
next
  case (Suc k)
  from Suc.IH have
    V: "\<And>cs v r. parse_value k cs = Some (v, r) \<Longrightarrow>
          length r < length cs \<and> parse_value (2 * (length cs - length r)) cs = Some (v, r)" and
    E: "\<And>acc cs v r. parse_elements k acc cs = Some (v, r) \<Longrightarrow>
          length r < length cs \<and>
          parse_elements (2 * (length cs - length r)) acc cs = Some (v, r)" and
    M: "\<And>acc cs v r. parse_members k acc cs = Some (v, r) \<Longrightarrow>
          length r < length cs \<and>
          parse_members (2 * (length cs - length r)) acc cs = Some (v, r)"
    by blast+
  have v: "length r < length cs \<and> parse_value (2 * (length cs - length r)) cs = Some (v, r)"
    if a: "parse_value (Suc k) cs = Some (v, r)" for cs v r
  proof -
    from a obtain c r0 where sk: "skip_ws cs = c # r0"
      by (cases "skip_ws cs") auto
    then have l0: "length r0 < length cs" by (rule skip_ws_Cons_shorter)
    consider
      (empty_obj) "c = CHR ''{''" "expect (CHR ''}'') r0 = Some r" "v = JObject []"
    | (obj) "c = CHR ''{''" "expect (CHR ''}'') r0 = None" "parse_members k [] r0 = Some (v, r)"
    | (empty_arr) "c \<noteq> CHR ''{''" "c = CHR ''[''" "expect (CHR '']'') r0 = Some r" "v = JArray []"
    | (arr) "c \<noteq> CHR ''{''" "c = CHR ''[''" "expect (CHR '']'') r0 = None"
        "parse_elements k [] r0 = Some (v, r)"
    | (scalar) "c \<noteq> CHR ''{''" "c \<noteq> CHR ''[''" "parse_scalar c r0 = Some (v, r)"
      using a sk by (auto split: if_splits option.splits)
    then show ?thesis
    proof cases
      case empty_obj
      from expect_shorter [OF empty_obj(2)] l0 have l: "length r < length cs" by simp
      then obtain j where j: "2 * (length cs - length r) = Suc j"
        by (cases "2 * (length cs - length r)") auto
      show ?thesis using l empty_obj sk unfolding j by simp
    next
      case obj
      from M [OF obj(3)] have lr: "length r < length r0"
        and p: "parse_members (2 * (length r0 - length r)) [] r0 = Some (v, r)" by simp_all
      from lr l0 have l: "length r < length cs" by simp
      then obtain j where j: "2 * (length cs - length r) = Suc j"
        by (cases "2 * (length cs - length r)") auto
      with lr l0 have "2 * (length r0 - length r) \<le> j" by arith
      with p have "parse_members j [] r0 = Some (v, r)" by (rule parse_members_mono)
      then show ?thesis using l obj sk unfolding j by simp
    next
      case empty_arr
      from expect_shorter [OF empty_arr(3)] l0 have l: "length r < length cs" by simp
      then obtain j where j: "2 * (length cs - length r) = Suc j"
        by (cases "2 * (length cs - length r)") auto
      show ?thesis using l empty_arr sk unfolding j by simp
    next
      case arr
      from E [OF arr(4)] have lr: "length r < length r0"
        and p: "parse_elements (2 * (length r0 - length r)) [] r0 = Some (v, r)" by simp_all
      from lr l0 have l: "length r < length cs" by simp
      then obtain j where j: "2 * (length cs - length r) = Suc j"
        by (cases "2 * (length cs - length r)") auto
      with lr l0 have "2 * (length r0 - length r) \<le> j" by arith
      with p have "parse_elements j [] r0 = Some (v, r)" by (rule parse_elements_mono)
      then show ?thesis using l arr sk unfolding j by simp
    next
      case scalar
      from parse_scalar_shorter [OF scalar(3)] l0 have l: "length r < length cs" by simp
      then obtain j where j: "2 * (length cs - length r) = Suc j"
        by (cases "2 * (length cs - length r)") auto
      show ?thesis using l scalar sk unfolding j by simp
    qed
  qed
  have e: "length r < length cs \<and>
           parse_elements (2 * (length cs - length r)) acc cs = Some (v, r)"
    if a: "parse_elements (Suc k) acc cs = Some (v, r)" for acc cs v r
  proof -
    from a obtain v1 r1 where pv: "parse_value k cs = Some (v1, r1)"
      by (auto split: option.splits)
    from V [OF pv] have l1: "length r1 < length cs"
      and p1: "parse_value (2 * (length cs - length r1)) cs = Some (v1, r1)" by simp_all
    consider
      (more) r2 where "expect (CHR '','') r1 = Some r2" "parse_elements k (v1 # acc) r2 = Some (v, r)"
    | (last) "expect (CHR '','') r1 = None" "expect (CHR '']'') r1 = Some r" "v = JArray (rev (v1 # acc))"
      using a pv by (auto split: option.splits)
    then show ?thesis
    proof cases
      case more
      from expect_shorter [OF more(1)] have l2: "length r2 < length r1" .
      from E [OF more(2)] have lr: "length r < length r2"
        and p2: "parse_elements (2 * (length r2 - length r)) (v1 # acc) r2 = Some (v, r)"
        by simp_all
      from lr l2 l1 have l: "length r < length cs" by simp
      then obtain j where j: "2 * (length cs - length r) = Suc j"
        by (cases "2 * (length cs - length r)") auto
      from j lr l2 l1 have "2 * (length cs - length r1) \<le> j" by arith
      with p1 have q1: "parse_value j cs = Some (v1, r1)" by (rule parse_value_mono)
      from j lr l2 l1 have "2 * (length r2 - length r) \<le> j" by arith
      with p2 have q2: "parse_elements j (v1 # acc) r2 = Some (v, r)"
        by (rule parse_elements_mono)
      show ?thesis using l q1 q2 more unfolding j by simp
    next
      case last
      from expect_shorter [OF last(2)] have lr: "length r < length r1" .
      from lr l1 have l: "length r < length cs" by simp
      then obtain j where j: "2 * (length cs - length r) = Suc j"
        by (cases "2 * (length cs - length r)") auto
      from j lr l1 have "2 * (length cs - length r1) \<le> j" by arith
      with p1 have q1: "parse_value j cs = Some (v1, r1)" by (rule parse_value_mono)
      show ?thesis using l q1 last unfolding j by simp
    qed
  qed
  have m: "length r < length cs \<and>
           parse_members (2 * (length cs - length r)) acc cs = Some (v, r)"
    if a: "parse_members (Suc k) acc cs = Some (v, r)" for acc cs v r
  proof -
    from a obtain r0 ky r1 r2 v1 r3 where
      x: "expect (CHR 0x22) cs = Some r0" "parse_chars [] r0 = Some (ky, r1)"
         "expect (CHR '':'') r1 = Some r2" "parse_value k r2 = Some (v1, r3)"
      by (auto split: option.splits)
    from expect_shorter [OF x(1)] parse_chars_shorter [OF x(2)] expect_shorter [OF x(3)]
    have l2: "length r2 < length cs" by simp
    from V [OF x(4)] have l3: "length r3 < length r2"
      and p3: "parse_value (2 * (length r2 - length r3)) r2 = Some (v1, r3)" by simp_all
    consider
      (more) r4 where "expect (CHR '','') r3 = Some r4"
        "parse_members k ((ky, v1) # acc) r4 = Some (v, r)"
    | (last) "expect (CHR '','') r3 = None" "expect (CHR ''}'') r3 = Some r"
        "v = JObject (rev ((ky, v1) # acc))"
      using a x by (auto split: option.splits)
    then show ?thesis
    proof cases
      case more
      from expect_shorter [OF more(1)] have l4: "length r4 < length r3" .
      from M [OF more(2)] have lr: "length r < length r4"
        and p4: "parse_members (2 * (length r4 - length r)) ((ky, v1) # acc) r4 = Some (v, r)"
        by simp_all
      from lr l4 l3 l2 have l: "length r < length cs" by simp
      then obtain j where j: "2 * (length cs - length r) = Suc j"
        by (cases "2 * (length cs - length r)") auto
      from j lr l4 l3 l2 have "2 * (length r2 - length r3) \<le> j" by arith
      with p3 have q3: "parse_value j r2 = Some (v1, r3)" by (rule parse_value_mono)
      from j lr l4 l3 l2 have "2 * (length r4 - length r) \<le> j" by arith
      with p4 have q4: "parse_members j ((ky, v1) # acc) r4 = Some (v, r)"
        by (rule parse_members_mono)
      show ?thesis using l q3 q4 x more unfolding j by simp
    next
      case last
      from expect_shorter [OF last(2)] have lr: "length r < length r3" .
      from lr l3 l2 have l: "length r < length cs" by simp
      then obtain j where j: "2 * (length cs - length r) = Suc j"
        by (cases "2 * (length cs - length r)") auto
      from j lr l3 l2 have "2 * (length r2 - length r3) \<le> j" by arith
      with p3 have q3: "parse_value j r2 = Some (v1, r3)" by (rule parse_value_mono)
      show ?thesis using l q3 x last unfolding j by simp
    qed
  qed
  from v e m show ?case by blast
qed

lemma parse_value_fuel:
  assumes "parse_value n text = Some (v, r)"
  shows "parse_value (2 * length text + 1) text = Some (v, r)"
proof -
  from parse_bound assms
  have "parse_value (2 * (length text - length r)) text = Some (v, r)" by blast
  moreover have "2 * (length text - length r) \<le> 2 * length text + 1" by simp
  ultimately show ?thesis by (rule parse_value_mono)
qed

text \<open>
  So \<open>JSON_parse\<close> accepts a text exactly when the descent accepts it at some depth
  bound and only white space follows the value.
\<close>

lemma JSON_parse_accepts_iff:
  "JSON_parse msg text = Inr v \<longleftrightarrow> (\<exists>n r. parse_value n text = Some (v, r) \<and> skip_ws r = [])"
proof
  assume a: "JSON_parse msg text = Inr v"
  define res where "res = parse_value (2 * length text + 1) text"
  from a have "(case res of
                  None \<Rightarrow> Inl (SyntaxError (msg text))
                | Some (v', r) \<Rightarrow> if skip_ws r = [] then Inr v' else Inl (SyntaxError (msg text)))
               = Inr v"
    unfolding JSON_parse_def res_def .
  then obtain r where "res = Some (v, r)" and "skip_ws r = []"
    by (auto split: option.splits if_splits)
  then show "\<exists>n r. parse_value n text = Some (v, r) \<and> skip_ws r = []"
    unfolding res_def by blast
next
  assume "\<exists>n r. parse_value n text = Some (v, r) \<and> skip_ws r = []"
  then obtain n r where p: "parse_value n text = Some (v, r)" and w: "skip_ws r = []"
    by blast
  from parse_value_fuel [OF p] w show "JSON_parse msg text = Inr v"
    unfolding JSON_parse_def by (simp del: parse_value.simps)
qed

subsection \<open>Decimal digits\<close>

lemma of_char_digit_char: "d < 10 \<Longrightarrow> (of_char (digit_char d) :: nat) = 48 + d"
  by (simp add: digit_char_def)

lemma digit_char_inj:
  assumes "a < 10" and "b < 10" and "digit_char a = digit_char b"
  shows "a = b"
proof -
  have "(of_char (digit_char a) :: nat) = of_char (digit_char b)"
    using assms(3) by simp
  then show ?thesis
    using assms(1,2) by (simp add: of_char_digit_char)
qed

lemma digit_char_not_minus:
  assumes "d < 10"
  shows "digit_char d \<noteq> CHR ''-''"
proof
  assume "digit_char d = CHR ''-''"
  then have "(of_char (digit_char d) :: nat) = of_char (CHR ''-'')"
    by simp
  then show False
    using assms by (simp add: of_char_digit_char)
qed

lemma Number_toString_nonempty: "Number_toString n \<noteq> []"
  by (subst Number_toString.simps) simp

lemma Number_toString_no_minus: "CHR ''-'' \<notin> set (Number_toString n)"
proof (induction n rule: Number_toString.induct)
  case (1 n)
  show ?case
  proof (cases "n < 10")
    case True
    then show ?thesis
      using digit_char_not_minus [of n] by (subst Number_toString.simps) auto
  next
    case False
    have "n mod 10 < 10" by simp
    then have "digit_char (n mod 10) \<noteq> CHR ''-''" by (rule digit_char_not_minus)
    with False "1.IH" show ?thesis
      by (subst Number_toString.simps) auto
  qed
qed

lemma Number_toString_inj: "Number_toString a = Number_toString b \<Longrightarrow> a = b"
proof (induction a arbitrary: b rule: Number_toString.induct)
  case (1 a)
  show ?case
  proof (cases "a < 10")
    case True
    then have a: "Number_toString a = [digit_char a]"
      by (subst Number_toString.simps) simp
    have "b < 10"
    proof (rule ccontr)
      assume "\<not> b < 10"
      then have "Number_toString b = Number_toString (b div 10) @ [digit_char (b mod 10)]"
        by (subst Number_toString.simps) simp
      with a "1.prems" Number_toString_nonempty [of "b div 10"] show False by simp
    qed
    then have "Number_toString b = [digit_char b]"
      by (subst Number_toString.simps) simp
    with a "1.prems" True \<open>b < 10\<close> show ?thesis
      by (simp add: digit_char_inj)
  next
    case False
    then have a: "Number_toString a = Number_toString (a div 10) @ [digit_char (a mod 10)]"
      by (subst Number_toString.simps) simp
    have nb: "\<not> b < 10"
    proof
      assume "b < 10"
      then have "Number_toString b = [digit_char b]"
        by (subst Number_toString.simps) simp
      with a "1.prems" Number_toString_nonempty [of "a div 10"] show False by simp
    qed
    then have b: "Number_toString b = Number_toString (b div 10) @ [digit_char (b mod 10)]"
      by (subst Number_toString.simps) simp
    from a b "1.prems" have eq: "Number_toString (a div 10) = Number_toString (b div 10)"
      and d: "digit_char (a mod 10) = digit_char (b mod 10)" by simp_all
    from "1.IH" [OF False eq] have q: "a div 10 = b div 10" .
    from d have r: "a mod 10 = b mod 10"
      by (intro digit_char_inj) simp_all
    from q r show ?thesis
      by (metis div_mult_mod_eq)
  qed
qed

lemma split_at_separator:
  assumes "c \<notin> set xs" and "c \<notin> set ys" and "xs @ c # u = ys @ c # v"
  shows "xs = ys \<and> u = v"
proof -
  have "takeWhile (\<lambda>a. a \<noteq> c) (xs @ c # u) = xs"
    using assms(1) by (subst takeWhile_append2) auto
  moreover have "takeWhile (\<lambda>a. a \<noteq> c) (ys @ c # v) = ys"
    using assms(2) by (subst takeWhile_append2) auto
  ultimately have "xs = ys" using assms(3) by simp
  with assms(3) show ?thesis by simp
qed

lemma uniqueId_example: "uniqueId 1730000000000 ''0.4fzyo82mvyr'' = ''1730000000000-4fzyo82mv''"
  by (simp add: uniqueId_def Number_toString.simps substr_def digit_char_def char_of_eq_iff)

section \<open>Facts about the handlers\<close>

lemma statusColor_with_backgroundColor [simp]:
  "statusColor (n\<lparr>style := Some (with_backgroundColor n c)\<rparr>) = c"
  by (simp add: statusColor_def with_backgroundColor_def split: option.split)

lemma statusColor_reset:
  "map (statusColor \<circ> (\<lambda>n. n\<lparr>style := Some (with_backgroundColor n None)\<rparr>)) ns
     = replicate (length ns) None"
  by (induction ns) simp_all

lemma fst_saveWorkflow:
  "fst (saveWorkflow post s) = \<lparr>doc_id = ''workflow1'', doc_nodes = nodes s, doc_edges = edges s\<rparr>"
  by (simp add: saveWorkflow_def Let_def split: option.split)

lemma validate_llm_tool:
  "validateRequiredFields msg params (Some (js_string ''llm_tool'')) =
     (if truthy (params ''apiKey'') then ([], True)
      else ([''API Key is required for llm_tool''], False))"
  by (simp add: validateRequiredFields_def)

lemma validate_fetch_tool:
  "validateRequiredFields msg params (Some (js_string ''fetch_from_rest_api_tool'')) =
     (case JSON_parse msg (or_default (params ''headers'') ''{}'') of
        Inl e \<Rightarrow> ([''Invalid JSON in headers: '' @ message e], False)
      | Inr _ \<Rightarrow>
          (case JSON_parse msg (or_default (params ''body'') ''{}'') of
             Inl e \<Rightarrow> ([''Invalid JSON in body: '' @ message e], False)
           | Inr _ \<Rightarrow> ([], True)))"
  by (simp add: validateRequiredFields_def)

lemma validate_accepts_silently:
  "validateRequiredFields msg params toolName = (alerts, True) \<Longrightarrow> alerts = []"
  by (auto simp: validateRequiredFields_def Let_def split: if_splits sum.splits)

lemma onDrop_tool_drag:
  "onDrop msg flow_position 1730000000000 ''0.4fzyo82mvyr'' tool_drag s =
     Inr (s\<lparr>nodes := nodes s @ [search_node ''1730000000000-4fzyo82mv'']\<rparr>)"
  by (simp add: onDrop_def getData_def tool_drag_def JSON_parse_tool_payload uniqueId_example
      search_node_def flow_position_def tool_payload_nonempty js_string_def)

lemma same_handle_refl [simp]: "same_handle a a"
  by (simp add: same_handle_def)

lemma connectionExists_append_self: "connectionExists e (es @ [e])"
  by (simp add: connectionExists_def list_ex_iff)

section \<open>The claims\<close>

subsection \<open>C1: submit with an empty credential field\<close>

text \<open>
  In the validating variant, a submit on a node of tool \<^verbatim>\<open>llm_tool\<close> whose draft has
  no or an empty \<^verbatim>\<open>apiKey\<close> alerts and returns before any state update: the editor,
  the draft and the graph are as they were.
\<close>

lemma validating_submit_requires_apiKey:
  assumes "selectedNode s = Some sel"
      and "label (data sel) = Some (js_string ''llm_tool'')"
      and "\<not> truthy (nodeParams s ''apiKey'')"
  shows "handleParamSubmit_validating msg s = Inr ([''API Key is required for llm_tool''], s)"
  using assms by (simp add: handleParamSubmit_validating_def validate_llm_tool)

lemma validating_submit_requires_apiKey_example:
  "handleParamSubmit_validating engine_message editing_llm
     = Inr ([''API Key is required for llm_tool''], editing_llm)"
  using validating_submit_requires_apiKey [of editing_llm llm_node engine_message]
  by (simp add: editing_llm_def handleParamChange_def onNodeClick_def llm_node_def truthy_def)

text \<open>
  C1. The claim: a submit on a node of tool \<^verbatim>\<open>llm_tool\<close> with an empty
  \<^verbatim>\<open>apiKey\<close> fails, the editor stays open, the draft is kept and the node's stored
  parameters are not modified. \<^verbatim>\<open>handleParamSubmit\<close> of \<^verbatim>\<open>src/FlowCanvas.js\<close> does
  not do this. On the graph with an \<^verbatim>\<open>llm_tool\<close> node that stores the
  \<^verbatim>\<open>apiKey\<close> \<^verbatim>\<open>sk-1\<close>, after the node is clicked and the field is emptied,
  the submit succeeds: the node now stores the empty \<^verbatim>\<open>apiKey\<close>, the editor is
  closed and the draft is gone.
\<close>

theorem handleParamSubmit_accepts_empty_apiKey:
  "nodeParams editing_llm ''apiKey'' = Some [] \<and>
   parameters (data llm_node) ''apiKey'' = Some ''sk-1'' \<and>
   handleParamSubmit editing_llm =
     Inr (graph_state\<lparr>nodes :=
            [llm_node\<lparr>data := \<lparr>label = Some (js_string ''llm_tool''),
                                parameters = [''model'' \<mapsto> ''small'', ''apiKey'' \<mapsto> []]\<rparr>\<rparr>,
             fetch_node]\<rparr>)"
  by (simp add: handleParamSubmit_def commit_params_def editing_llm_def handleParamChange_def
      onNodeClick_def graph_state_def llm_node_def fetch_node_def)

subsection \<open>C2: the end of a run\<close>

text \<open>
  C2. For every state and every \<^verbatim>\<open>execution_complete { result }\<close> event, the handler
  stores \<open>result\<close> as the run's output and leaves every node without a status marker
  (the idle appearance), whatever marker the node had before and also when it had
  none; the nodes are otherwise the same, in the same order, and nothing else of the
  state changes.
\<close>

theorem execution_complete_resets:
  "result (execution_complete r s) = r \<and>
   list_all2 (\<lambda>n n'. statusColor n' = None \<and> n'\<lparr>style := style n\<rparr> = n)
     (nodes s) (nodes (execution_complete r s)) \<and>
   execution_complete r s = s\<lparr>result := r, nodes := nodes (execution_complete r s)\<rparr>"
  by (simp add: execution_complete_def list_all2_map2 list_all2_same)

subsection \<open>C3: a status event for an unknown node\<close>

text \<open>
  C3, as claimed: every \<^verbatim>\<open>node_processing\<close> event whose \<open>nodeId\<close> is the id of no
  node is dropped without an error. It fails for an event value that cannot be
  converted to text: with the status \<^verbatim>\<open>{"toString": null}\<close> and an unknown id, and
  with that value as the id itself, the handler's log line raises a \<^verbatim>\<open>TypeError\<close>.
\<close>

theorem node_processing_unknown_id_throws:
  "node_processing (Some (js_string ''n9'')) unprintable graph_state = Inl TypeError \<and>
   node_processing unprintable (Some (js_string ''processing'')) graph_state = Inl TypeError"
  by (simp add: node_processing_def template_throws_unprintable)

text \<open>
  C3, amended. For every state and every \<^verbatim>\<open>node_processing { nodeId, status }\<close> event
  whose \<open>nodeId\<close> and \<open>status\<close> convert to text (every text, number, boolean,
  \<^verbatim>\<open>null\<close> and \<^verbatim>\<open>undefined\<close> does) and whose \<open>nodeId\<close> is the id of no node of
  the graph, the handler returns normally with the state it was given: the event is
  dropped.
\<close>

theorem node_processing_unknown_id:
  assumes "\<forall>n \<in> set (nodes s). Some (js_string (node_id n)) \<noteq> nodeId"
      and "\<not> template_throws nodeId"
      and "\<not> template_throws status"
  shows "node_processing nodeId status s = Inr s"
proof -
  have "mark_nodes nodeId status (nodes s) = nodes s"
    unfolding mark_nodes_def using assms(1) by (intro map_idI) simp
  then show ?thesis
    using assms(2,3) by (simp add: node_processing_def)
qed

theorem node_processing_unknown_id_witness:
  "\<not> template_throws (Some (js_string ''n9'')) \<and>
   \<not> template_throws (Some (js_string ''processing'')) \<and>
   node_processing (Some (js_string ''n9'')) (Some (js_string ''processing'')) graph_state
     = Inr graph_state"
  using node_processing_unknown_id
    [of graph_state "Some (js_string ''n9'')" "Some (js_string ''processing'')"]
  by (simp add: graph_state_def llm_node_def fetch_node_def)

subsection \<open>C4: free-form fields of the REST tool\<close>

text \<open>
  C4, as claimed: a non-empty \<^verbatim>\<open>headers\<close> or \<^verbatim>\<open>body\<close> that is not well-formed
  key-value text makes the submit fail. It fails for a text that is JSON but holds no
  keys and values: with \<^verbatim>\<open>headers = "42"\<close>, which parses as a number, the submit of
  the validating variant is accepted without an alert and the node stores the text.
\<close>

theorem fetch_tool_accepts_non_object_json:
  "nodeParams editing_fetch_number ''headers'' = Some ''42'' \<and>
   JSON_parse engine_message ''42'' = Inr (JNumber ''42'') \<and>
   handleParamSubmit_validating engine_message editing_fetch_number
     = Inr ([], graph_state\<lparr>nodes :=
                 [llm_node,
                  fetch_node\<lparr>data := \<lparr>label = Some (js_string ''fetch_from_rest_api_tool''),
                                        parameters = [''headers'' \<mapsto> ''42'']\<rparr>\<rparr>]\<rparr>)"
  by (simp add: handleParamSubmit_validating_def validate_fetch_tool commit_params_def
      editing_fetch_number_def handleParamChange_def onNodeClick_def graph_state_def
      llm_node_def fetch_node_def or_default_def JSON_parse_number JSON_parse_empty_object)

text \<open>
  C4, amended. For a submit in the validating variant on a node of tool
  \<^verbatim>\<open>fetch_from_rest_api_tool\<close>, a field passes when it is empty or absent, or when
  \<^verbatim>\<open>JSON.parse\<close> accepts its text (any JSON value, not only an object of keys and
  values). A non-empty \<^verbatim>\<open>headers\<close> that \<^verbatim>\<open>JSON.parse\<close> rejects makes the submit
  alert \<^verbatim>\<open>Invalid JSON in headers: \<close> followed by the parse error's message, and
  leaves the state as it was; when \<^verbatim>\<open>headers\<close> passes, a non-empty \<^verbatim>\<open>body\<close> that
  is rejected does the same, naming \<^verbatim>\<open>body\<close>; when both pass, the submit is accepted
  without an alert.
\<close>

theorem fetch_tool_fields_validated:
  assumes "selectedNode s = Some sel"
      and "label (data sel) = Some (js_string ''fetch_from_rest_api_tool'')"
  shows
    "(\<forall>h e. nodeParams s ''headers'' = Some h \<and> h \<noteq> [] \<and> JSON_parse msg h = Inl e \<longrightarrow>
         handleParamSubmit_validating msg s
           = Inr ([''Invalid JSON in headers: '' @ message e], s)) \<and>
     (\<forall>b e. parses_field msg (nodeParams s ''headers'') \<and>
            nodeParams s ''body'' = Some b \<and> b \<noteq> [] \<and> JSON_parse msg b = Inl e \<longrightarrow>
         handleParamSubmit_validating msg s
           = Inr ([''Invalid JSON in body: '' @ message e], s)) \<and>
     (parses_field msg (nodeParams s ''headers'') \<and> parses_field msg (nodeParams s ''body'') \<longrightarrow>
         handleParamSubmit_validating msg s = Inr ([], commit_params sel s)) \<and>
     (\<not> truthy (nodeParams s ''headers'') \<longrightarrow> parses_field msg (nodeParams s ''headers'')) \<and>
     (\<not> truthy (nodeParams s ''body'') \<longrightarrow> parses_field msg (nodeParams s ''body'')) \<and>
     (\<forall>t. t \<noteq> [] \<longrightarrow> parses_field msg (Some t) = (\<exists>j. JSON_parse msg t = Inr j))"
proof (intro conjI allI impI)
  fix h e
  assume "nodeParams s ''headers'' = Some h \<and> h \<noteq> [] \<and> JSON_parse msg h = Inl e"
  then show "handleParamSubmit_validating msg s
               = Inr ([''Invalid JSON in headers: '' @ message e], s)"
    using assms by (simp add: handleParamSubmit_validating_def validate_fetch_tool or_default_def)
next
  fix b e
  assume "parses_field msg (nodeParams s ''headers'') \<and>
          nodeParams s ''body'' = Some b \<and> b \<noteq> [] \<and> JSON_parse msg b = Inl e"
  then show "handleParamSubmit_validating msg s
               = Inr ([''Invalid JSON in body: '' @ message e], s)"
    using assms
    by (simp add: handleParamSubmit_validating_def validate_fetch_tool parses_field_def
        or_default_def split: sum.splits)
next
  assume "parses_field msg (nodeParams s ''headers'') \<and> parses_field msg (nodeParams s ''body'')"
  then show "handleParamSubmit_validating msg s = Inr ([], commit_params sel s)"
    using assms
    by (simp add: handleParamSubmit_validating_def validate_fetch_tool parses_field_def
        split: sum.splits)
next
  assume "\<not> truthy (nodeParams s ''headers'')"
  then show "parses_field msg (nodeParams s ''headers'')" by (rule parses_field_empty)
next
  assume "\<not> truthy (nodeParams s ''body'')"
  then show "parses_field msg (nodeParams s ''body'')" by (rule parses_field_empty)
next
  fix t :: string
  assume "t \<noteq> []"
  then show "parses_field msg (Some t) = (\<exists>j. JSON_parse msg t = Inr j)"
    by (cases "JSON_parse msg t") (simp_all add: parses_field_def or_default_def)
qed

theorem fetch_tool_fields_validated_witness:
  "nodeParams editing_fetch ''headers'' = Some ''{not json'' \<and>
   handleParamSubmit_validating engine_message editing_fetch
     = Inr ([''Invalid JSON in headers: Unexpected token''], editing_fetch) \<and>
   nodeParams editing_fetch ''body'' = None \<and>
   parses_field engine_message (nodeParams editing_fetch ''body'')"
  using fetch_tool_fields_validated [of editing_fetch fetch_node engine_message]
  by (simp add: editing_fetch_def handleParamChange_def onNodeClick_def fetch_node_def
      truthy_def JSON_parse_not_json engine_message_def)

subsection \<open>C5: what save sends\<close>

text \<open>
  C5, as claimed: the document sent by save holds no status marker of any node. It
  fails: after a \<^verbatim>\<open>node_processing\<close> event has marked the first node as processing,
  the document sent carries that node's yellow marker.
\<close>

theorem saveWorkflow_sends_status_marker:
  "node_processing (Some (js_string ''n2'')) (Some (js_string ''processing'')) graph_state
     = Inr (graph_state\<lparr>nodes :=
              [llm_node\<lparr>style := Some \<lparr>backgroundColor = Some ''yellow'', otherProps = []\<rparr>\<rparr>,
               fetch_node]\<rparr>) \<and>
   map statusColor
     (doc_nodes (fst (saveWorkflow ack
        (graph_state\<lparr>nodes :=
           [llm_node\<lparr>style := Some \<lparr>backgroundColor = Some ''yellow'', otherProps = []\<rparr>\<rparr>,
            fetch_node]\<rparr>))))
   = [Some ''yellow'', None]"
  by (simp add: fst_saveWorkflow node_processing_def mark_nodes_def graph_state_def llm_node_def
      fetch_node_def status_color_def statusColor_def with_backgroundColor_def)

text \<open>
  C5, amended. For every state, the document sent by save has the id
  \<^verbatim>\<open>workflow1\<close> and the node and edge lists exactly as the component holds them, so
  every node is sent whole, with its style; the document is free of status markers
  right after the reset that \<^verbatim>\<open>execution_complete\<close> and \<^verbatim>\<open>executeWorkflow\<close> make.
\<close>

theorem saveWorkflow_sends_state_as_is:
  "fst (saveWorkflow post s) = \<lparr>doc_id = ''workflow1'', doc_nodes = nodes s, doc_edges = edges s\<rparr> \<and>
   map statusColor (doc_nodes (fst (saveWorkflow post (execution_complete r s))))
     = replicate (length (nodes s)) None \<and>
   map statusColor (doc_nodes (fst (saveWorkflow post (executeWorkflow ok s))))
     = replicate (length (nodes s)) None"
  by (simp add: fst_saveWorkflow execution_complete_def executeWorkflow_def Let_def
      statusColor_reset)

subsection \<open>C6: a drop without a tool\<close>

text \<open>
  C6, as claimed: a drop whose payload is absent or does not parse as a tool is a silent
  no-op. It fails for a payload that is present: a text under the transfer key that is
  not JSON ends the handler with the \<^verbatim>\<open>SyntaxError\<close> of \<^verbatim>\<open>JSON.parse\<close>, and the
  JSON text \<^verbatim>\<open>{}\<close>, which is no tool, inserts a node whose label is
  \<^verbatim>\<open>undefined\<close>.
\<close>

theorem onDrop_invalid_payload_not_absorbed:
  "onDrop engine_message flow_position 1730000000000 ''0.4fzyo82mvyr'' foreign_drag graph_state
     = Inl (SyntaxError ''Unexpected token'') \<and>
   onDrop engine_message flow_position 1730000000000 ''0.4fzyo82mvyr'' object_drag graph_state
     = Inr (graph_state\<lparr>nodes := [llm_node, fetch_node, unnamed_node ''1730000000000-4fzyo82mv'']\<rparr>)"
  by (simp add: onDrop_def getData_def foreign_drag_def object_drag_def JSON_parse_input
      JSON_parse_empty_object engine_message_def uniqueId_example unnamed_node_def
      flow_position_def graph_state_def)

text \<open>
  C6, amended. For every drop event that stores nothing, or the empty text, under the
  transfer key \<^verbatim>\<open>application/reactflow\<close>, the drop handler is a silent no-op: it
  returns normally and the state, so the node list, is unchanged.
\<close>

theorem onDrop_without_payload:
  assumes "getData ev ''application/reactflow'' = []"
  shows "onDrop msg screenToFlowPosition now rnd ev s = Inr s"
  using assms by (simp add: onDrop_def)

theorem onDrop_without_payload_witness:
  "getData text_drag ''application/reactflow'' = [] \<and>
   onDrop engine_message flow_position 1730000000000 ''0.4fzyo82mvyr'' text_drag graph_state
     = Inr graph_state"
  using onDrop_without_payload
    [of text_drag engine_message flow_position 1730000000000 "''0.4fzyo82mvyr''" graph_state]
  by (simp add: getData_def text_drag_def)

subsection \<open>C7: connecting\<close>

text \<open>
  C7, as claimed: connecting an already connected pair adds one more edge. It fails:
  connecting the same pair a second time leaves the single edge of the first time.
\<close>

theorem onConnect_twice_one_edge:
  "length (edges (onConnect link graph_state)) = 1 \<and>
   length (edges (onConnect link (onConnect link graph_state))) = 1"
  by (simp add: onConnect_def addEdge_def link_def graph_state_def connectionExists_def
      new_edge_def same_handle_def)

text \<open>
  C7, amended. For every connection with a source and a target (equal ids included),
  connect appends the new edge from the source to the target when no edge of the list
  makes that connection yet, and leaves the list as it is otherwise; afterwards the
  connection exists, so connecting again changes nothing. Nothing but the edge list
  changes.
\<close>

theorem onConnect_adds_missing_connection_only:
  assumes "source c \<noteq> []" and "target c \<noteq> []"
  shows "edges (onConnect c s) =
           (if connectionExists (new_edge c) (edges s) then edges s
            else edges s @ [new_edge c]) \<and>
         source (new_edge c) = source c \<and> target (new_edge c) = target c \<and>
         connectionExists (new_edge c) (edges (onConnect c s)) \<and>
         onConnect c (onConnect c s) = onConnect c s \<and>
         onConnect c s = s\<lparr>edges := edges (onConnect c s)\<rparr>"
  using assms
  by (simp add: onConnect_def addEdge_def connectionExists_append_self new_edge_def)

theorem onConnect_adds_missing_connection_only_witness:
  "edges (onConnect self_loop graph_state) = [new_edge self_loop] \<and>
   source (new_edge self_loop) = target (new_edge self_loop)"
  using onConnect_adds_missing_connection_only [of self_loop graph_state]
  by (simp add: self_loop_def graph_state_def connectionExists_def new_edge_def)

subsection \<open>C8: submit replaces the parameters\<close>

text \<open>
  C8. For every state with a selected node and every draft, an accepted submit (every
  submit of \<^verbatim>\<open>src/FlowCanvas.js\<close>; in the validating variant, one that passes
  validation) gives each node with the selected id the draft as its parameters, not
  merged with what it stored, and changes nothing else of any node; the document that a
  following save sends holds exactly these nodes.
\<close>

theorem submit_replaces_parameters:
  assumes "selectedNode s = Some sel"
  shows "handleParamSubmit s = Inr (commit_params sel s) \<and>
         (snd (validateRequiredFields msg (nodeParams s) (label (data sel))) \<longrightarrow>
            handleParamSubmit_validating msg s = Inr ([], commit_params sel s)) \<and>
         list_all2
           (\<lambda>n n'. if node_id n = node_id sel
                    then parameters (data n') = nodeParams s \<and>
                         label (data n') = label (data n) \<and>
                         n'\<lparr>data := data n\<rparr> = n
                    else n' = n)
           (nodes s) (doc_nodes (fst (saveWorkflow post (commit_params sel s))))"
  using assms
  by (auto simp: handleParamSubmit_def handleParamSubmit_validating_def commit_params_def
      fst_saveWorkflow list_all2_map2 list_all2_same split: prod.split
      dest: validate_accepts_silently)

theorem submit_replaces_parameters_witness:
  "parameters (data llm_node) ''model'' = Some ''small'' \<and>
   handleParamSubmit editing_new_draft = Inr (commit_params llm_node editing_new_draft) \<and>
   handleParamSubmit_validating engine_message editing_new_draft
     = Inr ([], commit_params llm_node editing_new_draft) \<and>
   map (\<lambda>n. (parameters (data n) ''apiKey'', parameters (data n) ''model''))
     (doc_nodes (fst (saveWorkflow ack (commit_params llm_node editing_new_draft))))
     = [(Some ''sk-2'', None), (None, None)]"
  using submit_replaces_parameters [of editing_new_draft llm_node engine_message ack]
  by (simp add: editing_new_draft_def graph_state_def llm_node_def fetch_node_def
      fst_saveWorkflow commit_params_def validate_llm_tool truthy_def)

subsection \<open>C9: generated ids\<close>

text \<open>
  C9, as claimed: the ids of created nodes never collide. It fails: two drops that read
  the same clock value and the same random text create two nodes with the same id.
\<close>

theorem onDrop_twice_same_id:
  "onDrop engine_message flow_position 1730000000000 ''0.4fzyo82mvyr'' tool_drag initial_state
     = Inr (initial_state\<lparr>nodes := [search_node ''1730000000000-4fzyo82mv'']\<rparr>) \<and>
   onDrop engine_message flow_position 1730000000000 ''0.4fzyo82mvyr'' tool_drag
       (initial_state\<lparr>nodes := [search_node ''1730000000000-4fzyo82mv'']\<rparr>)
     = Inr (initial_state\<lparr>nodes := [search_node ''1730000000000-4fzyo82mv'',
                                      search_node ''1730000000000-4fzyo82mv'']\<rparr>) \<and>
   \<not> distinct (map node_id [search_node ''1730000000000-4fzyo82mv'',
                             search_node ''1730000000000-4fzyo82mv''])"
  by (simp add: onDrop_tool_drag initial_state_def)

text \<open>
  C9, amended. A drop that creates a node appends exactly one node, whose id is the
  clock value in decimal, a hyphen and the nine characters of the random text from its
  third on. Two such ids are equal exactly when the clock values are equal and these
  random suffixes are equal: ids made at different clock values, or with different
  suffixes, differ.
\<close>

theorem uniqueId_eq_iff:
  "(uniqueId t1 r1 = uniqueId t2 r2 \<longleftrightarrow> t1 = t2 \<and> substr 2 9 r1 = substr 2 9 r2) \<and>
   (case onDrop msg screenToFlowPosition t1 r1 ev s of
      Inl e \<Rightarrow> True
    | Inr s' \<Rightarrow> s' = s \<or> (\<exists>n. s' = s\<lparr>nodes := nodes s @ [n]\<rparr> \<and> node_id n = uniqueId t1 r1))"
proof
  show "uniqueId t1 r1 = uniqueId t2 r2 \<longleftrightarrow> t1 = t2 \<and> substr 2 9 r1 = substr 2 9 r2"
  proof
    assume "uniqueId t1 r1 = uniqueId t2 r2"
    then have "Number_toString t1 @ CHR ''-'' # substr 2 9 r1
             = Number_toString t2 @ CHR ''-'' # substr 2 9 r2"
      by (simp add: uniqueId_def)
    from split_at_separator [OF Number_toString_no_minus Number_toString_no_minus this]
    show "t1 = t2 \<and> substr 2 9 r1 = substr 2 9 r2"
      by (auto dest: Number_toString_inj)
  next
    assume "t1 = t2 \<and> substr 2 9 r1 = substr 2 9 r2"
    then show "uniqueId t1 r1 = uniqueId t2 r2"
      by (simp add: uniqueId_def)
  qed
next
  show "case onDrop msg screenToFlowPosition t1 r1 ev s of
          Inl e \<Rightarrow> True
        | Inr s' \<Rightarrow> s' = s \<or> (\<exists>n. s' = s\<lparr>nodes := nodes s @ [n]\<rparr> \<and> node_id n = uniqueId t1 r1)"
  proof (cases "onDrop msg screenToFlowPosition t1 r1 ev s")
    case (Inl e)
    then show ?thesis by simp
  next
    case (Inr s')
    then have "s' = s \<or>
               (\<exists>nm. s' = s\<lparr>nodes := nodes s @
                        [\<lparr>node_id = uniqueId t1 r1, node_type = ''default'',
                          data = \<lparr>label = nm, parameters = Map.empty\<rparr>,
                          position = screenToFlowPosition \<lparr>pos_x = clientX ev, pos_y = clientY ev\<rparr>,
                          style = None\<rparr>]\<rparr>)"
      by (auto simp: onDrop_def Let_def split: if_splits sum.splits)
    then show ?thesis
    proof
      assume "s' = s"
      with Inr show ?thesis by simp
    next
      assume "\<exists>nm. s' = s\<lparr>nodes := nodes s @
                        [\<lparr>node_id = uniqueId t1 r1, node_type = ''default'',
                          data = \<lparr>label = nm, parameters = Map.empty\<rparr>,
                          position = screenToFlowPosition \<lparr>pos_x = clientX ev, pos_y = clientY ev\<rparr>,
                          style = None\<rparr>]\<rparr>"
      then obtain nm where s': "s' = s\<lparr>nodes := nodes s @
                        [\<lparr>node_id = uniqueId t1 r1, node_type = ''default'',
                          data = \<lparr>label = nm, parameters = Map.empty\<rparr>,
                          position = screenToFlowPosition \<lparr>pos_x = clientX ev, pos_y = clientY ev\<rparr>,
                          style = None\<rparr>]\<rparr>" ..
      have "node_id \<lparr>node_id = uniqueId t1 r1, node_type = ''default'',
                          data = \<lparr>label = nm, parameters = Map.empty\<rparr>,
                          position = screenToFlowPosition \<lparr>pos_x = clientX ev, pos_y = clientY ev\<rparr>,
                          style = None\<rparr> = uniqueId t1 r1"
        by simp
      with s' have "\<exists>n. s' = s\<lparr>nodes := nodes s @ [n]\<rparr> \<and> node_id n = uniqueId t1 r1"
        by blast
      with Inr show ?thesis by simp
    qed
  qed
qed

subsection \<open>C10: a status that is neither processing nor completed\<close>

text \<open>
  C10, as claimed: any status value other than \<^verbatim>\<open>processing\<close> and
  \<^verbatim>\<open>completed\<close> marks the node with the event's id red. It fails for a status that
  cannot be converted to text: with \<^verbatim>\<open>{"toString": null}\<close> the handler's log line
  raises a \<^verbatim>\<open>TypeError\<close> and no node is marked.
\<close>

theorem node_processing_unprintable_status_throws:
  "unprintable \<noteq> Some (js_string ''processing'') \<and>
   unprintable \<noteq> Some (js_string ''completed'') \<and>
   node_processing (Some (js_string ''n2'')) unprintable graph_state = Inl TypeError"
  by (simp add: node_processing_def template_throws_unprintable)
    (simp add: unprintable_def js_string_def)

text \<open>
  C10, amended. For every \<^verbatim>\<open>node_processing\<close> event whose \<open>nodeId\<close> and \<open>status\<close>
  convert to text and whose status is anything but the texts \<^verbatim>\<open>processing\<close> and
  \<^verbatim>\<open>completed\<close> (an unknown text, a number, a boolean, \<^verbatim>\<open>null\<close> or none), the
  handler returns normally; every node with the event's id gets the red marker, keeps
  the other properties of its style and is otherwise the same node (id, type, data
  with its parameters, position); every other node is unchanged, and nothing else of
  the state changes.
\<close>

theorem node_processing_other_status:
  assumes "status \<noteq> Some (js_string ''processing'')"
      and "status \<noteq> Some (js_string ''completed'')"
      and "\<not> template_throws nodeId"
      and "\<not> template_throws status"
  shows "node_processing nodeId status s = Inr (s\<lparr>nodes := mark_nodes nodeId status (nodes s)\<rparr>) \<and>
         list_all2
           (\<lambda>n n'. if Some (js_string (node_id n)) = nodeId
                    then style n' =
                           Some \<lparr>backgroundColor = Some ''red'',
                                 otherProps = (case style n of
                                                 None \<Rightarrow> []
                                               | Some st \<Rightarrow> otherProps st)\<rparr> \<and>
                         statusColor n' = Some ''red'' \<and>
                         n'\<lparr>style := style n\<rparr> = n
                    else n' = n)
           (nodes s) (mark_nodes nodeId status (nodes s))"
proof
  show "node_processing nodeId status s = Inr (s\<lparr>nodes := mark_nodes nodeId status (nodes s)\<rparr>)"
    using assms(3,4) by (simp add: node_processing_def)
next
  have red: "status_color status = ''red''"
    using assms(1,2) by (simp add: status_color_def)
  have "with_backgroundColor n (Some ''red'') =
          \<lparr>backgroundColor = Some ''red'',
           otherProps = (case style n of None \<Rightarrow> [] | Some st \<Rightarrow> otherProps st)\<rparr>" for n
    by (simp add: with_backgroundColor_def split: option.split)
  then show "list_all2
           (\<lambda>n n'. if Some (js_string (node_id n)) = nodeId
                    then style n' =
                           Some \<lparr>backgroundColor = Some ''red'',
                                 otherProps = (case style n of
                                                 None \<Rightarrow> []
                                               | Some st \<Rightarrow> otherProps st)\<rparr> \<and>
                         statusColor n' = Some ''red'' \<and>
                         n'\<lparr>style := style n\<rparr> = n
                    else n' = n)
           (nodes s) (mark_nodes nodeId status (nodes s))"
    by (simp add: mark_nodes_def red list_all2_map2 list_all2_same statusColor_def)
qed

theorem node_processing_other_status_witness:
  "node_processing (Some (js_string ''n2'')) (Some (js_string ''exploded'')) styled_state
     = Inr (graph_state\<lparr>nodes :=
              [llm_node\<lparr>style := Some \<lparr>backgroundColor = Some ''red'',
                                          otherProps = [(''border'', ''2px solid'')]\<rparr>\<rparr>,
               fetch_node]\<rparr>)"
  using node_processing_other_status
    [of "Some (js_string ''exploded'')" "Some (js_string ''n2'')" styled_state]
  by (simp add: styled_state_def graph_state_def llm_node_def fetch_node_def mark_nodes_def
      status_color_def with_backgroundColor_def)

end
